theory Spec2Isabelle
  imports Main
begin

section \<open>Values exchanged with the libraries\<close>

text \<open>
  The file \<open>pkg/identity/keystone/keystone.go\<close> builds the Keystone client, the
  Kubernetes client and the \<open>Authenticator\<close> and \<open>Authorizer\<close> values. Every
  function of it returns a Go pair \<open>(value, error)\<close>; the model returns a sum, \<open>Inl\<close>
  the error. A Go error is modelled by its message, which is what \<open>%v\<close> prints and
  what \<open>errors.New\<close> and \<open>fmt.Errorf\<close> build.
\<close>

datatype error = Error (message: string)

text \<open>\<open>x509.CertPool\<close>: the certificates read from the CA file.\<close>

type_synonym CertPool = "string list"

text \<open>\<open>tls.Config\<close> and \<open>http.Transport\<close>, with the fields the code sets.\<close>

record TLSConfig =
  RootCAs :: "CertPool option"

record HTTPTransport =
  TLSClientConfig :: "TLSConfig option"
  OldTransportDefaults :: bool

text \<open>
  \<open>gophercloud.AuthOptions\<close>, \<open>gophercloud.ProviderClient\<close> (its
  \<open>HTTPClient.Transport\<close> is \<open>None\<close> while Go's default transport is in use),
  \<open>utils.Version\<close> and \<open>gophercloud.ServiceClient\<close>. The service client holds a
  pointer to its provider client, whose fields Go promotes: \<open>client.IdentityBase\<close>
  and \<open>client.IdentityEndpoint\<close> are fields of the provider.
\<close>

record AuthOptions =
  opts_IdentityEndpoint :: string

record ProviderClient =
  IdentityBase :: string
  IdentityEndpoint :: string
  HTTPClient_Transport :: "HTTPTransport option"

record Version =
  ID :: string
  Priority :: int
  Suffix :: string

record ServiceClient =
  Provider :: ProviderClient
  Endpoint :: string

text \<open>
  The Kubernetes side: \<open>rest.Config\<close>, \<open>kubernetes.Clientset\<close>,
  \<open>version.Info\<close> and \<open>v1.ConfigMap\<close>. \<open>Data\<close> is a Go
  \<open>map[string]string\<close>; reading a missing key gives the empty string.
\<close>

datatype RestConfig = RestConfig string

datatype Clientset = Clientset RestConfig

record VersionInfo =
  Major :: string
  Minor :: string

record ConfigMap =
  cm_Namespace :: string
  cm_Name :: string
  Data :: "string \<rightharpoonup> string"

definition map_index :: "(string \<rightharpoonup> string) \<Rightarrow> string \<Rightarrow> string" where
  "map_index m k = (case m k of None \<Rightarrow> [] | Some v \<Rightarrow> v)"

text \<open>
  The two values the package constructs. \<open>policyList\<close> is declared in another file
  of the package; its element type is a parameter here.
\<close>

type_synonym 'p policyList = "'p list"

record Authenticator =
  authn_authURL :: string
  authn_client :: ServiceClient

record 'p Authorizer =
  authz_authURL :: string
  authz_client :: ServiceClient
  authz_pl :: "'p policyList"

section \<open>The libraries and the outside world\<close>

text \<open>
  Every call that leaves the file is a field of the environment: gophercloud
  (\<open>openstack.NewClient\<close>, \<open>utils.ChooseVersion\<close>, \<open>openstack.NewIdentityV3\<close>),
  client-go (\<open>certutil.NewPool\<close>, \<open>clientcmd.BuildConfigFromFlags\<close>,
  \<open>kubernetes.NewForConfig\<close>, \<open>Discovery().ServerVersion\<close>,
  \<open>CoreV1().ConfigMaps(ns).Get\<close>), \<open>encoding/json\<close>, \<open>fmt\<close>'s \<open>%#v\<close>, and
  \<open>newFromFile\<close>, which the package defines in a file that is not part of the sources
  at hand. The theorems hold for every environment unless they say otherwise.
\<close>

record 'p env =
  NewClient :: "string \<Rightarrow> error + ProviderClient"
  ChooseVersion :: "ProviderClient \<Rightarrow> Version list \<Rightarrow> error + (Version \<times> string)"
  NewIdentityV3 :: "ProviderClient \<Rightarrow> error + ServiceClient"
  NewPool :: "string \<Rightarrow> error + CertPool"
  BuildConfigFromFlags :: "string \<Rightarrow> string \<Rightarrow> error + RestConfig"
  NewForConfig :: "RestConfig \<Rightarrow> error + Clientset"
  ServerVersion :: "Clientset \<Rightarrow> error + VersionInfo"
  ConfigMapsGet :: "Clientset \<Rightarrow> string \<Rightarrow> string \<Rightarrow> error + ConfigMap"
  newFromFile :: "string \<Rightarrow> error + 'p policyList"
  jsonUnmarshal :: "string \<Rightarrow> error + 'p policyList"
  jsonMarshalIndent :: "'p policyList \<Rightarrow> error + string"
  fmtGoSyntax :: "error \<Rightarrow> string"

text \<open>
  What a run does besides returning: the calls it makes to the network, the cluster, the
  file system and the parsers, and the lines it logs. Each function returns, next to its
  result, the events it caused, in order. The formatting of a log line
  (\<open>json.MarshalIndent\<close>, \<open>fmt.Sprintf\<close>) leaves no event of its own.
\<close>

datatype event =
    CallNewClient string
  | CallChooseVersion ProviderClient "Version list"
  | CallNewIdentityV3 ProviderClient
  | CallNewPool string
  | CallBuildConfigFromFlags string string
  | CallNewForConfig RestConfig
  | CallServerVersion Clientset
  | CallConfigMapsGet Clientset string string
  | CallNewFromFile string
  | CallJsonUnmarshal string
  | GlogInfo string
  | GlogWarning string
  | GlogV6 string

text \<open>The events that reach the Kubernetes cluster or its configuration.\<close>

fun kubernetes_call :: "event \<Rightarrow> bool" where
  "kubernetes_call (CallBuildConfigFromFlags m k) = True"
| "kubernetes_call (CallNewForConfig cfg) = True"
| "kubernetes_call (CallServerVersion k) = True"
| "kubernetes_call (CallConfigMapsGet k ns name) = True"
| "kubernetes_call e = False"

section \<open>The functions of keystone.go\<close>

text \<open>
  \<open>createIdentityV3Provider\<close> (lines 38-63). The transport is a Go interface value;
  \<open>None\<close> is \<open>nil\<close>.
\<close>

definition createIdentityV3Provider ::
  "'p env \<Rightarrow> AuthOptions \<Rightarrow> HTTPTransport option
    \<Rightarrow> (error + ProviderClient) \<times> event list" where
  "createIdentityV3Provider env options transport =
    (let t1 = [CallNewClient (opts_IdentityEndpoint options)] in
     case NewClient env (opts_IdentityEndpoint options) of
       Inl err \<Rightarrow> (Inl err, t1)
     | Inr client0 \<Rightarrow>
        (let client1 = (case transport of
                          None \<Rightarrow> client0
                        | Some t \<Rightarrow> client0\<lparr>HTTPClient_Transport := Some t\<rparr>);
             versions = [\<lparr>ID = ''v3'', Priority = 30, Suffix = ''/v3/''\<rparr>];
             t2 = t1 @ [CallChooseVersion client1 versions] in
         case ChooseVersion env client1 versions of
           Inl err \<Rightarrow>
             (Inl (Error (''Unable to find identity API v3 version : '' @ message err)), t2)
         | Inr (chosen, endpoint) \<Rightarrow>
             if ID chosen = ''v3'' then (Inr client1, t2)
             else (Inl (Error (''Unsupported identity API version: '' @ ID chosen)), t2)))"

text \<open>\<open>createKubernetesClient\<close> (lines 65-85).\<close>

definition createKubernetesClient ::
  "'p env \<Rightarrow> string \<Rightarrow> (error + Clientset) \<times> event list" where
  "createKubernetesClient env kubeConfig =
    (let t1 = [GlogInfo ''Creating kubernetes API client.'',
               CallBuildConfigFromFlags [] kubeConfig] in
     case BuildConfigFromFlags env [] kubeConfig of
       Inl err \<Rightarrow> (Inl err, t1)
     | Inr cfg \<Rightarrow>
        (let t2 = t1 @ [CallNewForConfig cfg] in
         case NewForConfig env cfg of
           Inl err \<Rightarrow> (Inl err, t2)
         | Inr k8s \<Rightarrow>
            (let t3 = t2 @ [CallServerVersion k8s] in
             case ServerVersion env k8s of
               Inl err \<Rightarrow> (Inl err, t3)
             | Inr v \<Rightarrow>
                 (Inr k8s,
                  t3 @ [GlogInfo (''Kubernetes API client created, server version ''
                                  @ ''v'' @ Major v @ ''.'' @ Minor v)]))))"

text \<open>
  \<open>createKeystoneClient\<close> (lines 87-122). The check of the URL comes first; the CA
  file is read only after it, and only when a file is named. The transport built from
  the pool is \<open>netutil.SetOldTransportDefaults(&http.Transport{TLSClientConfig: config})\<close>:
  the record with the TLS configuration and the defaults set.
\<close>

definition createKeystoneClient ::
  "'p env \<Rightarrow> string \<Rightarrow> string \<Rightarrow> (error + ServiceClient) \<times> event list" where
  "createKeystoneClient env authURL caFile =
    (if authURL = [] then (Inl (Error ''Auth URL is empty''), [])
     else
       case (if caFile \<noteq> [] then
               (case NewPool env caFile of
                  Inl err \<Rightarrow> (Inl err, [CallNewPool caFile])
                | Inr roots \<Rightarrow>
                    (Inr (Some \<lparr>TLSClientConfig = Some \<lparr>RootCAs = Some roots\<rparr>,
                                OldTransportDefaults = True\<rparr>),
                     [CallNewPool caFile]))
             else (Inr None, [])) of
         (Inl err, t1) \<Rightarrow> (Inl err, t1)
       | (Inr transport, t1) \<Rightarrow>
          (case createIdentityV3Provider env \<lparr>opts_IdentityEndpoint = authURL\<rparr> transport of
             (Inl err, t2) \<Rightarrow> (Inl err, t1 @ t2)
           | (Inr provider, t2) \<Rightarrow>
              (let t3 = t1 @ t2 @ [CallNewIdentityV3 provider] in
               case NewIdentityV3 env provider of
                 Inl err \<Rightarrow>
                   (Inl (Error ''Failed to authenticate''),
                    t3 @ [GlogWarning (''Failed: Unable to use keystone v3 identity service: ''
                                       @ message err)])
               | Inr c \<Rightarrow>
                   (Inr (c\<lparr>Provider := (Provider c)\<lparr>IdentityBase := IdentityEndpoint (Provider c)\<rparr>,
                           Endpoint := IdentityEndpoint (Provider c)\<rparr>),
                    t3))))"

text \<open>\<open>NewKeystoneAuthenticator\<close> (lines 125-132).\<close>

definition NewKeystoneAuthenticator ::
  "'p env \<Rightarrow> string \<Rightarrow> string \<Rightarrow> (error + Authenticator) \<times> event list" where
  "NewKeystoneAuthenticator env authURL caFile =
    (case createKeystoneClient env authURL caFile of
       (Inl err, t1) \<Rightarrow> (Inl err, t1)
     | (Inr c, t1) \<Rightarrow> (Inr \<lparr>authn_authURL = authURL, authn_client = c\<rparr>, t1))"

text \<open>
  Lines 166-173 of \<open>NewKeystoneAuthorizer\<close>, which both policy branches reach once
  the policy is loaded: the policy is logged at verbosity 6 and the authorizer returned.
\<close>

definition authorizerWithPolicy ::
  "'p env \<Rightarrow> string \<Rightarrow> ServiceClient \<Rightarrow> 'p policyList
    \<Rightarrow> (error + 'p Authorizer option) \<times> event list" where
  "authorizerWithPolicy env authURL c policy =
    (Inr (Some \<lparr>authz_authURL = authURL, authz_client = c, authz_pl = policy\<rparr>),
     [case jsonMarshalIndent env policy of
        Inr output \<Rightarrow> GlogV6 (''Policy '' @ output)
      | Inl err \<Rightarrow> GlogV6 (''Error '' @ fmtGoSyntax env err)])"

text \<open>
  \<open>NewKeystoneAuthorizer\<close> (lines 135-174). The Go result \<open>(nil, err)\<close> is
  \<open>Inl err\<close>, \<open>(nil, nil)\<close> is \<open>Inr None\<close> and \<open>(a, nil)\<close> is \<open>Inr (Some a)\<close>.
\<close>

definition NewKeystoneAuthorizer ::
  "'p env \<Rightarrow> string \<Rightarrow> string \<Rightarrow> string \<Rightarrow> string \<Rightarrow> string
    \<Rightarrow> (error + 'p Authorizer option) \<times> event list" where
  "NewKeystoneAuthorizer env authURL caFile policyFile configMap kubeConfig =
    (case createKeystoneClient env authURL caFile of
       (Inl err, t1) \<Rightarrow> (Inl err, t1)
     | (Inr c, t1) \<Rightarrow>
        if policyFile \<noteq> [] then
          (let t2 = t1 @ [CallNewFromFile policyFile] in
           case newFromFile env policyFile of
             Inl err \<Rightarrow>
               (Inl (Error (''failed to extract policy from policy file '' @ policyFile
                            @ '': '' @ message err)), t2)
           | Inr policy \<Rightarrow>
               (case authorizerWithPolicy env authURL c policy of (r, t3) \<Rightarrow> (r, t2 @ t3)))
        else if configMap \<noteq> [] then
          (case createKubernetesClient env kubeConfig of
             (Inl err, t2) \<Rightarrow> (Inl err, t1 @ t2)
           | (Inr k8sClient, t2) \<Rightarrow>
              (let t3 = t1 @ t2 @ [CallConfigMapsGet k8sClient ''kube-system'' configMap] in
               case ConfigMapsGet env k8sClient ''kube-system'' configMap of
                 Inl err \<Rightarrow> (Inl err, t3)
               | Inr cm \<Rightarrow>
                  (let t4 = t3 @ [CallJsonUnmarshal (map_index (Data cm) ''policies'')] in
                   case jsonUnmarshal env (map_index (Data cm) ''policies'') of
                     Inl err \<Rightarrow>
                       (Inl (Error (''failed to parse policies defined in the configmap ''
                                    @ configMap @ '': '' @ message err)), t4)
                   | Inr policy \<Rightarrow>
                       (case authorizerWithPolicy env authURL c policy of
                          (r, t5) \<Rightarrow> (r, t4 @ t5)))))
        else (Inr None, t1))"

text \<open>An environment to run the functions in.\<close>

definition sample_env :: "string env" where
  "sample_env =
    \<lparr>NewClient = (\<lambda>endpoint.
        if endpoint = ''https://keystone.example.org/v3/''
        then Inr \<lparr>IdentityBase = ''https://keystone.example.org/'',
                  IdentityEndpoint = endpoint, HTTPClient_Transport = None\<rparr>
        else Inl (Error ''unsupported protocol scheme'')),
     ChooseVersion = (\<lambda>c vs.
        case vs of [] \<Rightarrow> Inl (Error ''No supported version available'')
        | v # rest \<Rightarrow> Inr (v, IdentityEndpoint c)),
     NewIdentityV3 = (\<lambda>p. Inr \<lparr>Provider = p, Endpoint = IdentityEndpoint p\<rparr>),
     NewPool = (\<lambda>f.
        if f = ''/etc/ssl/ca.pem'' then Inr [''keystone-ca'']
        else Inl (Error ''no such file or directory'')),
     BuildConfigFromFlags = (\<lambda>m k.
        if k = ''/etc/kube/config'' then Inr (RestConfig ''https://kube.example.org'')
        else Inl (Error ''invalid configuration'')),
     NewForConfig = (\<lambda>cfg. Inr (Clientset cfg)),
     ServerVersion = (\<lambda>k. Inr \<lparr>Major = ''1'', Minor = ''10''\<rparr>),
     ConfigMapsGet = (\<lambda>k ns name.
        if ns = ''kube-system'' \<and> name = ''keystone-policy''
        then Inr \<lparr>cm_Namespace = ns, cm_Name = name,
                  Data = [''policies'' \<mapsto> ''[admin]'']\<rparr>
        else if ns = ''kube-system'' \<and> name = ''no-policies''
        then Inr \<lparr>cm_Namespace = ns, cm_Name = name, Data = Map.empty\<rparr>
        else Inl (Error ''configmap not found'')),
     newFromFile = (\<lambda>f.
        if f = ''/etc/policy.json'' then Inr [''admin'', ''viewer'']
        else Inl (Error ''no such file or directory'')),
     jsonUnmarshal = (\<lambda>raw.
        if raw = [] then Inl (Error ''unexpected end of JSON input'')
        else if raw = ''[admin]'' then Inr [''admin'']
        else Inl (Error ''invalid character'')),
     jsonMarshalIndent = (\<lambda>p. Inr (concat p)),
     fmtGoSyntax = message\<rparr>"

text \<open>
  A second content of the cluster's ConfigMaps: the consulted ConfigMap carries a further
  key, and the other ConfigMap of \<open>sample_env\<close> is gone.
\<close>

definition sample_configmaps_variant :: "Clientset \<Rightarrow> string \<Rightarrow> string \<Rightarrow> error + ConfigMap" where
  "sample_configmaps_variant k ns name =
    (if ns = ''kube-system'' \<and> name = ''keystone-policy''
     then Inr \<lparr>cm_Namespace = ns, cm_Name = name,
               Data = [''policies'' \<mapsto> ''[admin]'', ''rules'' \<mapsto> ''[viewer]'']\<rparr>
     else Inl (Error ''configmap not found''))"

section \<open>Notions the statements use\<close>

text \<open>
  What a \<open>ConfigMaps(ns).Get\<close> result contributes to the policy: its error, or the
  entry of its data under the key \<open>policies\<close>.
\<close>

definition policies_entry :: "error + ConfigMap \<Rightarrow> error + string" where
  "policies_entry r =
    (case r of Inl err \<Rightarrow> Inl err | Inr cm \<Rightarrow> Inr (map_index (Data cm) ''policies''))"

text \<open>
  An error message can point at a position (the index of a rule, a line, an offset) only
  if it holds a digit.
\<close>

definition names_a_position :: "error \<Rightarrow> bool" where
  "names_a_position e = list_ex (\<lambda>ch. ch \<in> set ''0123456789'') (message e)"

text \<open>
  The contract of gophercloud's \<open>utils.ChooseVersion\<close>: the version it returns without
  error is one of the candidates it was given.
\<close>

definition chooses_among_candidates :: "'p env \<Rightarrow> bool" where
  "chooses_among_candidates env =
    (\<forall>c vs v ep. ChooseVersion env c vs = Inr (v, ep) \<longrightarrow> v \<in> set vs)"

section \<open>The decision engine\<close>

text \<open>
  Modelled from the spec: the decision engine (\<open>Evaluate\<close>, the rule model and its
  match predicate) is not in \<open>keystone.go\<close>, which only constructs clients. The
  definitions below follow sections 3 and 4.3 of the specification.
\<close>

text \<open>
  Modelled from the spec: a rule field is "either a literal to match or a wildcard";
  "matching is case-sensitive exact string equality except for the dedicated wildcard
  token, which matches any non-empty value".
\<close>

datatype Pattern = Literal string | Wildcard

fun pattern_matches :: "Pattern \<Rightarrow> string \<Rightarrow> bool" where
  "pattern_matches (Literal s) v = (s = v)"
| "pattern_matches Wildcard v = (v \<noteq> [])"

text \<open>Modelled from the spec: the outcomes of a rule and of an evaluation.\<close>

datatype Effect = EffectAllow | EffectDeny

datatype Outcome = Allow | Deny | NoOpinion

fun outcome_of :: "Effect \<Rightarrow> Outcome" where
  "outcome_of EffectAllow = Allow"
| "outcome_of EffectDeny = Deny"

text \<open>Modelled from the spec: Identity, Action, PolicyRule and Decision of section 3.\<close>

record Identity =
  userName :: string
  projectID :: string
  projectName :: string
  domainName :: string
  roles :: "string set"

record Action =
  verb :: string
  apiGroup :: string
  resource :: string
  namespace :: string
  resourceName :: string
  nonResourcePath :: string

record PolicyRule =
  rule_verb :: Pattern
  rule_apiGroup :: Pattern
  rule_resource :: Pattern
  rule_namespace :: Pattern
  rule_resourceName :: Pattern
  rule_nonResourcePath :: Pattern
  rule_users :: "string list"
  rule_roles :: "string list"
  rule_projects :: "string list"
  rule_effect :: Effect

record Decision =
  outcome :: Outcome
  matchedRuleIndex :: "nat option"

text \<open>
  Modelled from the spec: the match predicate is a conjunction, "action-field
  equality-or-wildcard AND identity-role intersection-or-empty AND, if configured,
  user/project literal-or-empty match".
\<close>

definition rule_matches :: "PolicyRule \<Rightarrow> Identity \<Rightarrow> Action \<Rightarrow> bool" where
  "rule_matches r ident act =
    (pattern_matches (rule_verb r) (verb act)
     \<and> pattern_matches (rule_apiGroup r) (apiGroup act)
     \<and> pattern_matches (rule_resource r) (resource act)
     \<and> pattern_matches (rule_namespace r) (namespace act)
     \<and> pattern_matches (rule_resourceName r) (resourceName act)
     \<and> pattern_matches (rule_nonResourcePath r) (nonResourcePath act)
     \<and> (rule_roles r = [] \<or> list_ex (\<lambda>x. x \<in> roles ident) (rule_roles r))
     \<and> (rule_users r = [] \<or> userName ident \<in> set (rule_users r))
     \<and> (rule_projects r = [] \<or> projectID ident \<in> set (rule_projects r)
          \<or> projectName ident \<in> set (rule_projects r)))"

text \<open>
  Modelled from the spec: "iterate the RuleSet in order; ... On the first matching rule,
  return its configured outcome (Allow or Deny) immediately ... If no rule matches after
  exhausting the set, return NoOpinion ... unless the engine is configured in
  deny-by-default mode, in which case exhaustion yields Deny." \<open>EvaluateFrom i\<close> is the
  loop at rule index \<open>i\<close>. A malformed Action is rejected before evaluation and never
  reaches \<open>Evaluate\<close>.
\<close>

fun EvaluateFrom :: "nat \<Rightarrow> bool \<Rightarrow> Identity \<Rightarrow> Action \<Rightarrow> PolicyRule list \<Rightarrow> Decision" where
  "EvaluateFrom i denyByDefault ident act [] =
     \<lparr>outcome = (if denyByDefault then Deny else NoOpinion), matchedRuleIndex = None\<rparr>"
| "EvaluateFrom i denyByDefault ident act (r # rs) =
     (if rule_matches r ident act
      then \<lparr>outcome = outcome_of (rule_effect r), matchedRuleIndex = Some i\<rparr>
      else EvaluateFrom (Suc i) denyByDefault ident act rs)"

definition Evaluate :: "bool \<Rightarrow> Identity \<Rightarrow> Action \<Rightarrow> PolicyRule list \<Rightarrow> Decision" where
  "Evaluate denyByDefault ident act ruleSet = EvaluateFrom 0 denyByDefault ident act ruleSet"

text \<open>
  Modelled from the spec: the rules, the request and an identity for the first-match
  example of section 8, in the shape of the specification's scenario: fields a rule or a
  request does not name are empty.
\<close>

definition DenyAll :: PolicyRule where
  "DenyAll =
    \<lparr>rule_verb = Wildcard, rule_apiGroup = Literal [], rule_resource = Wildcard,
     rule_namespace = Literal [], rule_resourceName = Literal [],
     rule_nonResourcePath = Literal [], rule_users = [], rule_roles = [],
     rule_projects = [], rule_effect = EffectDeny\<rparr>"

definition AllowGetPods :: PolicyRule where
  "AllowGetPods =
    \<lparr>rule_verb = Literal ''get'', rule_apiGroup = Literal [], rule_resource = Literal ''pods'',
     rule_namespace = Literal [], rule_resourceName = Literal [],
     rule_nonResourcePath = Literal [], rule_users = [], rule_roles = [],
     rule_projects = [], rule_effect = EffectAllow\<rparr>"

definition GetPods :: Action where
  "GetPods =
    \<lparr>verb = ''get'', apiGroup = [], resource = ''pods'', namespace = [],
     resourceName = [], nonResourcePath = []\<rparr>"

definition alice :: Identity where
  "alice =
    \<lparr>userName = ''alice'', projectID = ''p1'', projectName = ''demo'',
     domainName = ''default'', roles = {''member''}\<rparr>"

section \<open>Facts about the constructors\<close>

text \<open>The Keystone client of the sample environment, with no CA file.\<close>

lemma sample_keystone_client:
  "createKeystoneClient sample_env ''https://keystone.example.org/v3/'' [] =
    (Inr \<lparr>Provider = \<lparr>IdentityBase = ''https://keystone.example.org/v3/'',
                       IdentityEndpoint = ''https://keystone.example.org/v3/'',
                       HTTPClient_Transport = None\<rparr>,
           Endpoint = ''https://keystone.example.org/v3/''\<rparr>,
     [CallNewClient ''https://keystone.example.org/v3/'',
      CallChooseVersion \<lparr>IdentityBase = ''https://keystone.example.org/'',
                          IdentityEndpoint = ''https://keystone.example.org/v3/'',
                          HTTPClient_Transport = None\<rparr>
                        [\<lparr>ID = ''v3'', Priority = 30, Suffix = ''/v3/''\<rparr>],
      CallNewIdentityV3 \<lparr>IdentityBase = ''https://keystone.example.org/'',
                          IdentityEndpoint = ''https://keystone.example.org/v3/'',
                          HTTPClient_Transport = None\<rparr>])"
  by (simp add: createKeystoneClient_def createIdentityV3Provider_def sample_env_def Let_def)

lemma sample_kubernetes_client:
  "fst (createKubernetesClient sample_env ''/etc/kube/config'')
     = Inr (Clientset (RestConfig ''https://kube.example.org''))"
  by (simp add: createKubernetesClient_def sample_env_def Let_def)

lemma sample_env_chooses_among_candidates: "chooses_among_candidates sample_env"
  by (auto simp: chooses_among_candidates_def sample_env_def split: list.splits)

text \<open>Which events each function can cause.\<close>

lemma createIdentityV3Provider_events:
  "createIdentityV3Provider env options transport = (r, t) \<Longrightarrow>
   CallNewPool f \<notin> set t \<and> CallNewIdentityV3 p \<notin> set t"
  by (auto simp: createIdentityV3Provider_def Let_def split: sum.splits prod.splits if_splits)

lemma createIdentityV3Provider_nil_transport:
  "createIdentityV3Provider env options None = (Inr p, t) \<Longrightarrow>
   NewClient env (opts_IdentityEndpoint options) = Inr p"
  by (auto simp: createIdentityV3Provider_def Let_def split: sum.splits prod.splits if_splits)

lemma createIdentityV3Provider_nil_transport_events:
  "createIdentityV3Provider env options None = (r, t) \<Longrightarrow>
   CallChooseVersion p vs \<in> set t \<Longrightarrow>
   NewClient env (opts_IdentityEndpoint options) = Inr p"
  by (auto simp: createIdentityV3Provider_def Let_def split: sum.splits prod.splits if_splits)

lemma createKeystoneClient_no_kubernetes_call:
  "filter kubernetes_call (snd (createKeystoneClient env authURL caFile)) = []"
  by (auto simp: createKeystoneClient_def createIdentityV3Provider_def Let_def
      split: sum.splits option.splits prod.splits if_splits)

lemma createKeystoneClient_events:
  "createKeystoneClient env authURL caFile = (r, t) \<Longrightarrow>
   CallConfigMapsGet k ns name \<notin> set t \<and> CallJsonUnmarshal raw \<notin> set t
   \<and> CallNewFromFile f \<notin> set t"
  by (auto simp: createKeystoneClient_def createIdentityV3Provider_def Let_def
      split: sum.splits prod.splits if_splits option.splits)

lemma createKubernetesClient_events:
  "createKubernetesClient env kubeConfig = (r, t) \<Longrightarrow>
   CallConfigMapsGet k ns name \<notin> set t \<and> CallJsonUnmarshal raw \<notin> set t
   \<and> CallNewFromFile f \<notin> set t"
  by (auto simp: createKubernetesClient_def Let_def
      split: sum.splits prod.splits if_splits option.splits)

text \<open>Only \<open>NewKeystoneAuthorizer\<close> itself reads the ConfigMaps.\<close>

lemma createIdentityV3Provider_ConfigMapsGet_update:
  "createIdentityV3Provider (env\<lparr>ConfigMapsGet := g\<rparr>) options transport
     = createIdentityV3Provider env options transport"
  by (simp add: createIdentityV3Provider_def Let_def split: sum.splits prod.splits)

lemma createKeystoneClient_ConfigMapsGet_update:
  "createKeystoneClient (env\<lparr>ConfigMapsGet := g\<rparr>) authURL caFile
     = createKeystoneClient env authURL caFile"
  by (simp add: createKeystoneClient_def createIdentityV3Provider_ConfigMapsGet_update Let_def
      split: sum.splits prod.splits)

lemma createKubernetesClient_ConfigMapsGet_update:
  "createKubernetesClient (env\<lparr>ConfigMapsGet := g\<rparr>) kubeConfig
     = createKubernetesClient env kubeConfig"
  by (simp add: createKubernetesClient_def Let_def split: sum.splits)

lemma authorizerWithPolicy_ConfigMapsGet_update:
  "authorizerWithPolicy (env\<lparr>ConfigMapsGet := g\<rparr>) authURL c policy
     = authorizerWithPolicy env authURL c policy"
  by (simp add: authorizerWithPolicy_def split: sum.splits)

section \<open>Both policy sources\<close>

text \<open>
  C1, as claimed: a call with both \<open>policyFile\<close> and \<open>configMap\<close> non-empty fails. It
  does not: in the sample environment such a call returns an Authorizer, carrying the
  policy of the file.
\<close>

theorem both_policy_sources_counterexample:
  "fst (NewKeystoneAuthorizer sample_env ''https://keystone.example.org/v3/'' []
          ''/etc/policy.json'' ''keystone-policy'' ''/etc/kube/config'')
   = Inr (Some \<lparr>authz_authURL = ''https://keystone.example.org/v3/'',
                authz_client =
                  \<lparr>Provider = \<lparr>IdentityBase = ''https://keystone.example.org/v3/'',
                                 IdentityEndpoint = ''https://keystone.example.org/v3/'',
                                 HTTPClient_Transport = None\<rparr>,
                   Endpoint = ''https://keystone.example.org/v3/''\<rparr>,
                authz_pl = [''admin'', ''viewer'']\<rparr>)"
  by (simp add: NewKeystoneAuthorizer_def sample_keystone_client)
    (simp add: sample_env_def authorizerWithPolicy_def)

text \<open>
  C1, amended: when both \<open>policyFile\<close> and \<open>configMap\<close> are non-empty the policy file
  takes precedence. The call behaves exactly as the call with an empty \<open>configMap\<close>, and
  when the Keystone client is created and the file loads it returns the Authorizer built
  from the file's policy, with no error.
\<close>

theorem policyFile_takes_precedence:
  "policyFile \<noteq> [] \<Longrightarrow> configMap \<noteq> [] \<Longrightarrow>
   NewKeystoneAuthorizer env authURL caFile policyFile configMap kubeConfig
     = NewKeystoneAuthorizer env authURL caFile policyFile [] kubeConfig
   \<and> (\<forall>c policy. fst (createKeystoneClient env authURL caFile) = Inr c
          \<and> newFromFile env policyFile = Inr policy \<longrightarrow>
        fst (NewKeystoneAuthorizer env authURL caFile policyFile configMap kubeConfig)
          = Inr (Some \<lparr>authz_authURL = authURL, authz_client = c, authz_pl = policy\<rparr>))"
  by (cases "createKeystoneClient env authURL caFile")
    (auto simp: NewKeystoneAuthorizer_def authorizerWithPolicy_def Let_def split: sum.splits)

text \<open>The amended C1 in the sample environment, with both sources named.\<close>

theorem policyFile_takes_precedence_witness:
  "NewKeystoneAuthorizer sample_env ''https://keystone.example.org/v3/'' []
      ''/etc/policy.json'' ''keystone-policy'' ''/etc/kube/config''
    = NewKeystoneAuthorizer sample_env ''https://keystone.example.org/v3/'' []
      ''/etc/policy.json'' [] ''/etc/kube/config''
   \<and> fst (NewKeystoneAuthorizer sample_env ''https://keystone.example.org/v3/'' []
      ''/etc/policy.json'' ''keystone-policy'' ''/etc/kube/config'')
      = Inr (Some \<lparr>authz_authURL = ''https://keystone.example.org/v3/'',
                   authz_client =
                     \<lparr>Provider = \<lparr>IdentityBase = ''https://keystone.example.org/v3/'',
                                    IdentityEndpoint = ''https://keystone.example.org/v3/'',
                                    HTTPClient_Transport = None\<rparr>,
                      Endpoint = ''https://keystone.example.org/v3/''\<rparr>,
                   authz_pl = [''admin'', ''viewer'']\<rparr>)"
proof -
  have nf: "newFromFile sample_env ''/etc/policy.json'' = Inr [''admin'', ''viewer'']"
    by (simp add: sample_env_def)
  have h: "''/etc/policy.json'' \<noteq> []" "''keystone-policy'' \<noteq> []"
    by simp_all
  note th = policyFile_takes_precedence [OF h, of sample_env
      "''https://keystone.example.org/v3/''" "[]" "''/etc/kube/config''"]
  show ?thesis
  proof
    show "NewKeystoneAuthorizer sample_env ''https://keystone.example.org/v3/'' []
      ''/etc/policy.json'' ''keystone-policy'' ''/etc/kube/config''
    = NewKeystoneAuthorizer sample_env ''https://keystone.example.org/v3/'' []
      ''/etc/policy.json'' [] ''/etc/kube/config''"
      by (rule th [THEN conjunct1])
  next
    show "fst (NewKeystoneAuthorizer sample_env ''https://keystone.example.org/v3/'' []
      ''/etc/policy.json'' ''keystone-policy'' ''/etc/kube/config'')
      = Inr (Some \<lparr>authz_authURL = ''https://keystone.example.org/v3/'',
                   authz_client =
                     \<lparr>Provider = \<lparr>IdentityBase = ''https://keystone.example.org/v3/'',
                                    IdentityEndpoint = ''https://keystone.example.org/v3/'',
                                    HTTPClient_Transport = None\<rparr>,
                      Endpoint = ''https://keystone.example.org/v3/''\<rparr>,
                   authz_pl = [''admin'', ''viewer'']\<rparr>)"
      by (rule th [THEN conjunct2, rule_format]) (simp add: sample_keystone_client nf)
  qed
qed

section \<open>No policy source\<close>

text \<open>
  C2. When \<open>policyFile\<close> and \<open>configMap\<close> are both empty and the Keystone client is
  created, \<open>NewKeystoneAuthorizer\<close> returns \<open>(nil, nil)\<close>: no Authorizer and no error,
  after the events of the client's creation and nothing more.
\<close>

theorem no_policy_source_disables_authorization:
  "fst (createKeystoneClient env authURL caFile) = Inr c \<Longrightarrow>
   NewKeystoneAuthorizer env authURL caFile [] [] kubeConfig
     = (Inr None, snd (createKeystoneClient env authURL caFile))"
  by (cases "createKeystoneClient env authURL caFile") (simp add: NewKeystoneAuthorizer_def)

text \<open>C2 in the sample environment.\<close>

theorem no_policy_source_disables_authorization_witness:
  "fst (NewKeystoneAuthorizer sample_env ''https://keystone.example.org/v3/'' [] [] []
          ''/etc/kube/config'') = Inr None"
  using no_policy_source_disables_authorization
    [of sample_env "''https://keystone.example.org/v3/''" "[]" _ "''/etc/kube/config''"]
  by (simp add: sample_keystone_client)

section \<open>Empty authURL\<close>

text \<open>
  C3. With an empty \<open>authURL\<close>, whatever the CA file, \<open>createKeystoneClient\<close> returns
  the error \<open>Auth URL is empty\<close> and no client, before any call outside the file; and
  \<open>NewKeystoneAuthenticator\<close> and \<open>NewKeystoneAuthorizer\<close> return no value and that
  same error.
\<close>

theorem empty_authURL_is_fatal:
  "createKeystoneClient env [] caFile = (Inl (Error ''Auth URL is empty''), [])
   \<and> NewKeystoneAuthenticator env [] caFile = (Inl (Error ''Auth URL is empty''), [])
   \<and> NewKeystoneAuthorizer env [] caFile policyFile configMap kubeConfig
       = (Inl (Error ''Auth URL is empty''), [])"
  by (simp add: createKeystoneClient_def NewKeystoneAuthenticator_def
      NewKeystoneAuthorizer_def)

section \<open>The ConfigMap source\<close>

text \<open>
  C4. In the ConfigMap branch (\<open>policyFile\<close> empty, \<open>configMap\<close> non-empty), once the
  Keystone client and the Kubernetes client are created, the ConfigMap named
  \<open>configMap\<close> is read from the namespace \<open>kube-system\<close>; a failure of that read is
  the function's error; when the ConfigMap is returned, its entry under \<open>policies\<close> is
  the text given to the parser, and when the parser succeeds the Authorizer returned
  carries exactly the rules parsed from that entry. Nothing else is read: every
  ConfigMap read is of that ConfigMap in \<open>kube-system\<close>, by the client
  \<open>createKubernetesClient\<close> built from \<open>kubeConfig\<close>; the only text parsed is that
  entry; no policy file is read; an Authorizer returned carries the rules parsed from
  that entry; and the whole run is the same in every cluster that agrees on that one
  entry, whatever its other ConfigMaps, namespaces and keys hold.
\<close>

theorem configMap_policy_location:
  assumes "configMap \<noteq> []"
  shows "(\<forall>k ns name. CallConfigMapsGet k ns name
             \<in> set (snd (NewKeystoneAuthorizer env authURL caFile [] configMap kubeConfig))
           \<longrightarrow> ns = ''kube-system'' \<and> name = configMap
               \<and> fst (createKubernetesClient env kubeConfig) = Inr k)
    \<and> (\<forall>raw. CallJsonUnmarshal raw
             \<in> set (snd (NewKeystoneAuthorizer env authURL caFile [] configMap kubeConfig))
           \<longrightarrow> (\<exists>k cm. fst (createKubernetesClient env kubeConfig) = Inr k
                  \<and> ConfigMapsGet env k ''kube-system'' configMap = Inr cm
                  \<and> raw = map_index (Data cm) ''policies''))
    \<and> (\<forall>f. CallNewFromFile f
             \<notin> set (snd (NewKeystoneAuthorizer env authURL caFile [] configMap kubeConfig)))
    \<and> (\<forall>a. fst (NewKeystoneAuthorizer env authURL caFile [] configMap kubeConfig)
               = Inr (Some a)
           \<longrightarrow> (\<exists>k cm. fst (createKubernetesClient env kubeConfig) = Inr k
                  \<and> ConfigMapsGet env k ''kube-system'' configMap = Inr cm
                  \<and> jsonUnmarshal env (map_index (Data cm) ''policies'') = Inr (authz_pl a)))
    \<and> (\<forall>g. (\<forall>k. policies_entry (g k ''kube-system'' configMap)
                   = policies_entry (ConfigMapsGet env k ''kube-system'' configMap))
           \<longrightarrow> NewKeystoneAuthorizer (env\<lparr>ConfigMapsGet := g\<rparr>) authURL caFile []
                  configMap kubeConfig
                = NewKeystoneAuthorizer env authURL caFile [] configMap kubeConfig)
    \<and> (\<forall>c k. fst (createKeystoneClient env authURL caFile) = Inr c
             \<and> fst (createKubernetesClient env kubeConfig) = Inr k
           \<longrightarrow> CallConfigMapsGet k ''kube-system'' configMap
                 \<in> set (snd (NewKeystoneAuthorizer env authURL caFile [] configMap kubeConfig)))
    \<and> (\<forall>c k err. fst (createKeystoneClient env authURL caFile) = Inr c
             \<and> fst (createKubernetesClient env kubeConfig) = Inr k
             \<and> ConfigMapsGet env k ''kube-system'' configMap = Inl err
           \<longrightarrow> fst (NewKeystoneAuthorizer env authURL caFile [] configMap kubeConfig)
                 = Inl err)
    \<and> (\<forall>c k cm. fst (createKeystoneClient env authURL caFile) = Inr c
             \<and> fst (createKubernetesClient env kubeConfig) = Inr k
             \<and> ConfigMapsGet env k ''kube-system'' configMap = Inr cm
           \<longrightarrow> CallJsonUnmarshal (map_index (Data cm) ''policies'')
                 \<in> set (snd (NewKeystoneAuthorizer env authURL caFile [] configMap kubeConfig)))
    \<and> (\<forall>c k cm policy. fst (createKeystoneClient env authURL caFile) = Inr c
             \<and> fst (createKubernetesClient env kubeConfig) = Inr k
             \<and> ConfigMapsGet env k ''kube-system'' configMap = Inr cm
             \<and> jsonUnmarshal env (map_index (Data cm) ''policies'') = Inr policy
           \<longrightarrow> fst (NewKeystoneAuthorizer env authURL caFile [] configMap kubeConfig)
                 = Inr (Some \<lparr>authz_authURL = authURL, authz_client = c,
                              authz_pl = policy\<rparr>))"
proof (intro conjI allI impI)
  fix k ns name
  assume "CallConfigMapsGet k ns name
             \<in> set (snd (NewKeystoneAuthorizer env authURL caFile [] configMap kubeConfig))"
  then show "ns = ''kube-system''" "name = configMap"
    "fst (createKubernetesClient env kubeConfig) = Inr k"
    by (auto simp: NewKeystoneAuthorizer_def authorizerWithPolicy_def Let_def
        split: sum.splits prod.splits if_splits
        dest: createKeystoneClient_events createKubernetesClient_events)
next
  fix raw
  assume "CallJsonUnmarshal raw
             \<in> set (snd (NewKeystoneAuthorizer env authURL caFile [] configMap kubeConfig))"
  then show "\<exists>k cm. fst (createKubernetesClient env kubeConfig) = Inr k
                  \<and> ConfigMapsGet env k ''kube-system'' configMap = Inr cm
                  \<and> raw = map_index (Data cm) ''policies''"
    by (auto simp: NewKeystoneAuthorizer_def authorizerWithPolicy_def Let_def
        split: sum.splits prod.splits if_splits
        dest: createKeystoneClient_events createKubernetesClient_events)
next
  fix f
  show "CallNewFromFile f
             \<notin> set (snd (NewKeystoneAuthorizer env authURL caFile [] configMap kubeConfig))"
    by (auto simp: NewKeystoneAuthorizer_def authorizerWithPolicy_def Let_def
        split: sum.splits prod.splits if_splits
        dest: createKeystoneClient_events createKubernetesClient_events)
next
  fix a
  assume "fst (NewKeystoneAuthorizer env authURL caFile [] configMap kubeConfig)
               = Inr (Some a)"
  then show "\<exists>k cm. fst (createKubernetesClient env kubeConfig) = Inr k
                  \<and> ConfigMapsGet env k ''kube-system'' configMap = Inr cm
                  \<and> jsonUnmarshal env (map_index (Data cm) ''policies'') = Inr (authz_pl a)"
    using assms
    by (fastforce simp: NewKeystoneAuthorizer_def authorizerWithPolicy_def Let_def
        split: sum.splits prod.splits if_splits)
next
  fix g
  assume g: "\<forall>k. policies_entry (g k ''kube-system'' configMap)
                   = policies_entry (ConfigMapsGet env k ''kube-system'' configMap)"
  then show "NewKeystoneAuthorizer (env\<lparr>ConfigMapsGet := g\<rparr>) authURL caFile []
                  configMap kubeConfig
                = NewKeystoneAuthorizer env authURL caFile [] configMap kubeConfig"
    by (auto simp: NewKeystoneAuthorizer_def Let_def policies_entry_def
        createKeystoneClient_ConfigMapsGet_update createKubernetesClient_ConfigMapsGet_update
        authorizerWithPolicy_ConfigMapsGet_update
        split: sum.splits prod.splits)
next
  fix c k
  assume "fst (createKeystoneClient env authURL caFile) = Inr c
             \<and> fst (createKubernetesClient env kubeConfig) = Inr k"
  then show "CallConfigMapsGet k ''kube-system'' configMap
                 \<in> set (snd (NewKeystoneAuthorizer env authURL caFile [] configMap kubeConfig))"
    using assms
    by (cases "createKeystoneClient env authURL caFile";
        cases "createKubernetesClient env kubeConfig")
      (auto simp: NewKeystoneAuthorizer_def authorizerWithPolicy_def Let_def
        split: sum.splits)
next
  fix c k err
  assume "fst (createKeystoneClient env authURL caFile) = Inr c
             \<and> fst (createKubernetesClient env kubeConfig) = Inr k
             \<and> ConfigMapsGet env k ''kube-system'' configMap = Inl err"
  then show "fst (NewKeystoneAuthorizer env authURL caFile [] configMap kubeConfig) = Inl err"
    using assms
    by (cases "createKeystoneClient env authURL caFile";
        cases "createKubernetesClient env kubeConfig")
      (simp add: NewKeystoneAuthorizer_def Let_def)
next
  fix c k cm
  assume "fst (createKeystoneClient env authURL caFile) = Inr c
             \<and> fst (createKubernetesClient env kubeConfig) = Inr k
             \<and> ConfigMapsGet env k ''kube-system'' configMap = Inr cm"
  then show "CallJsonUnmarshal (map_index (Data cm) ''policies'')
                 \<in> set (snd (NewKeystoneAuthorizer env authURL caFile [] configMap kubeConfig))"
    using assms
    by (cases "createKeystoneClient env authURL caFile";
        cases "createKubernetesClient env kubeConfig")
      (auto simp: NewKeystoneAuthorizer_def authorizerWithPolicy_def Let_def
        split: sum.splits)
next
  fix c k cm policy
  assume "fst (createKeystoneClient env authURL caFile) = Inr c
             \<and> fst (createKubernetesClient env kubeConfig) = Inr k
             \<and> ConfigMapsGet env k ''kube-system'' configMap = Inr cm
             \<and> jsonUnmarshal env (map_index (Data cm) ''policies'') = Inr policy"
  then show "fst (NewKeystoneAuthorizer env authURL caFile [] configMap kubeConfig)
                 = Inr (Some \<lparr>authz_authURL = authURL, authz_client = c,
                              authz_pl = policy\<rparr>)"
    using assms
    by (cases "createKeystoneClient env authURL caFile";
        cases "createKubernetesClient env kubeConfig")
      (simp add: NewKeystoneAuthorizer_def authorizerWithPolicy_def Let_def)
qed

text \<open>
  C4 in the sample environment: the ConfigMap \<open>keystone-policy\<close> of \<open>kube-system\<close> is
  read, its \<open>policies\<close> entry is parsed, and the Authorizer returned carries the rule
  parsed from it; a further key in that ConfigMap and the loss of another ConfigMap
  change nothing.
\<close>

theorem configMap_policy_location_witness:
  "NewKeystoneAuthorizer (sample_env\<lparr>ConfigMapsGet := sample_configmaps_variant\<rparr>)
      ''https://keystone.example.org/v3/'' [] [] ''keystone-policy'' ''/etc/kube/config''
    = NewKeystoneAuthorizer sample_env
      ''https://keystone.example.org/v3/'' [] [] ''keystone-policy'' ''/etc/kube/config''
   \<and> CallConfigMapsGet (Clientset (RestConfig ''https://kube.example.org''))
        ''kube-system'' ''keystone-policy''
      \<in> set (snd (NewKeystoneAuthorizer sample_env
      ''https://keystone.example.org/v3/'' [] [] ''keystone-policy'' ''/etc/kube/config''))
   \<and> CallJsonUnmarshal ''[admin]''
      \<in> set (snd (NewKeystoneAuthorizer sample_env
      ''https://keystone.example.org/v3/'' [] [] ''keystone-policy'' ''/etc/kube/config''))
   \<and> fst (NewKeystoneAuthorizer sample_env
      ''https://keystone.example.org/v3/'' [] [] ''keystone-policy'' ''/etc/kube/config'')
      = Inr (Some \<lparr>authz_authURL = ''https://keystone.example.org/v3/'',
                   authz_client =
                     \<lparr>Provider = \<lparr>IdentityBase = ''https://keystone.example.org/v3/'',
                                    IdentityEndpoint = ''https://keystone.example.org/v3/'',
                                    HTTPClient_Transport = None\<rparr>,
                      Endpoint = ''https://keystone.example.org/v3/''\<rparr>,
                   authz_pl = [''admin'']\<rparr>)"
proof -
  have ne: "''keystone-policy'' \<noteq> []"
    by simp
  have same: "\<forall>k. policies_entry (sample_configmaps_variant k ''kube-system'' ''keystone-policy'')
      = policies_entry (ConfigMapsGet sample_env k ''kube-system'' ''keystone-policy'')"
    by (simp add: policies_entry_def sample_configmaps_variant_def sample_env_def map_index_def)
  have kc: "fst (createKeystoneClient sample_env ''https://keystone.example.org/v3/'' [])
      = Inr \<lparr>Provider = \<lparr>IdentityBase = ''https://keystone.example.org/v3/'',
                         IdentityEndpoint = ''https://keystone.example.org/v3/'',
                         HTTPClient_Transport = None\<rparr>,
             Endpoint = ''https://keystone.example.org/v3/''\<rparr>"
    by (simp add: sample_keystone_client)
  have cm: "ConfigMapsGet sample_env (Clientset (RestConfig ''https://kube.example.org''))
              ''kube-system'' ''keystone-policy''
      = Inr \<lparr>cm_Namespace = ''kube-system'', cm_Name = ''keystone-policy'',
             Data = [''policies'' \<mapsto> ''[admin]'']\<rparr>"
    by (simp add: sample_env_def)
  note th = configMap_policy_location [OF ne, of sample_env
      "''https://keystone.example.org/v3/''" "[]" "''/etc/kube/config''"]
  have indep: "NewKeystoneAuthorizer (sample_env\<lparr>ConfigMapsGet := sample_configmaps_variant\<rparr>)
      ''https://keystone.example.org/v3/'' [] [] ''keystone-policy'' ''/etc/kube/config''
    = NewKeystoneAuthorizer sample_env
      ''https://keystone.example.org/v3/'' [] [] ''keystone-policy'' ''/etc/kube/config''"
    by (rule th [THEN conjunct2, THEN conjunct2, THEN conjunct2, THEN conjunct2, THEN conjunct1, rule_format])
      (simp add: same)
  have read: "CallConfigMapsGet (Clientset (RestConfig ''https://kube.example.org''))
        ''kube-system'' ''keystone-policy''
      \<in> set (snd (NewKeystoneAuthorizer sample_env
      ''https://keystone.example.org/v3/'' [] [] ''keystone-policy'' ''/etc/kube/config''))"
    by (rule th [THEN conjunct2, THEN conjunct2, THEN conjunct2, THEN conjunct2, THEN conjunct2, THEN conjunct1, rule_format])
      (simp add: kc sample_kubernetes_client)
  have "CallJsonUnmarshal (map_index (Data \<lparr>cm_Namespace = ''kube-system'',
             cm_Name = ''keystone-policy'', Data = [''policies'' \<mapsto> ''[admin]'']\<rparr>) ''policies'')
      \<in> set (snd (NewKeystoneAuthorizer sample_env
      ''https://keystone.example.org/v3/'' [] [] ''keystone-policy'' ''/etc/kube/config''))"
    by (rule th [THEN conjunct2, THEN conjunct2, THEN conjunct2, THEN conjunct2, THEN conjunct2, THEN conjunct2, THEN conjunct2, THEN conjunct1, rule_format,
          where k = "Clientset (RestConfig ''https://kube.example.org'')"])
      (simp add: kc sample_kubernetes_client cm)
  then have given: "CallJsonUnmarshal ''[admin]''
      \<in> set (snd (NewKeystoneAuthorizer sample_env
      ''https://keystone.example.org/v3/'' [] [] ''keystone-policy'' ''/etc/kube/config''))"
    by (simp add: map_index_def)
  have returned: "fst (NewKeystoneAuthorizer sample_env
      ''https://keystone.example.org/v3/'' [] [] ''keystone-policy'' ''/etc/kube/config'')
      = Inr (Some \<lparr>authz_authURL = ''https://keystone.example.org/v3/'',
                   authz_client =
                     \<lparr>Provider = \<lparr>IdentityBase = ''https://keystone.example.org/v3/'',
                                    IdentityEndpoint = ''https://keystone.example.org/v3/'',
                                    HTTPClient_Transport = None\<rparr>,
                      Endpoint = ''https://keystone.example.org/v3/''\<rparr>,
                   authz_pl = [''admin'']\<rparr>)"
    by (rule th [THEN conjunct2, THEN conjunct2, THEN conjunct2, THEN conjunct2, THEN conjunct2, THEN conjunct2, THEN conjunct2, THEN conjunct2, rule_format,
          where k = "Clientset (RestConfig ''https://kube.example.org'')"
            and cm = "\<lparr>cm_Namespace = ''kube-system'', cm_Name = ''keystone-policy'',
                       Data = [''policies'' \<mapsto> ''[admin]'']\<rparr>"])
      (simp add: kc sample_kubernetes_client cm map_index_def, simp add: sample_env_def)
  from indep read given returned show ?thesis
    by (intro conjI)
qed

section \<open>Policy load failures\<close>

text \<open>
  C5, as claimed: when the policy text fails to parse, the error returned identifies the
  position of the offending rule. It does not: a ConfigMap without a \<open>policies\<close> entry
  gives the empty text, \<open>json.Unmarshal\<close> fails on it with \<open>unexpected end of JSON
  input\<close>, and the error returned names the ConfigMap and that message, and no position.
\<close>

theorem policy_parse_error_counterexample:
  "fst (NewKeystoneAuthorizer sample_env ''https://keystone.example.org/v3/'' [] []
          ''no-policies'' ''/etc/kube/config'')
     = Inl (Error ''failed to parse policies defined in the configmap no-policies: unexpected end of JSON input'')
   \<and> \<not> names_a_position (Error ''failed to parse policies defined in the configmap no-policies: unexpected end of JSON input'')"
  by (simp add: NewKeystoneAuthorizer_def sample_keystone_client names_a_position_def)
    (simp add: sample_env_def createKubernetesClient_def Let_def map_index_def)

text \<open>
  C5, amended: policy loading is all-or-nothing. When \<open>newFromFile\<close> fails, or
  \<open>json.Unmarshal\<close> of the ConfigMap's \<open>policies\<close> entry fails, the function returns no
  Authorizer and an error made of the source's name (the policy file's path, the
  ConfigMap's name) and the message of the underlying error; and an Authorizer that is
  returned carries exactly the rule list the loader returned.
\<close>

theorem policy_load_is_all_or_nothing:
  "(policyFile \<noteq> [] \<and> fst (createKeystoneClient env authURL caFile) = Inr c
      \<and> newFromFile env policyFile = Inl err \<longrightarrow>
    fst (NewKeystoneAuthorizer env authURL caFile policyFile configMap kubeConfig)
      = Inl (Error (''failed to extract policy from policy file '' @ policyFile
                    @ '': '' @ message err)))
   \<and> (configMap \<noteq> [] \<and> fst (createKeystoneClient env authURL caFile) = Inr c
        \<and> fst (createKubernetesClient env kubeConfig) = Inr k
        \<and> ConfigMapsGet env k ''kube-system'' configMap = Inr cm
        \<and> jsonUnmarshal env (map_index (Data cm) ''policies'') = Inl err \<longrightarrow>
      fst (NewKeystoneAuthorizer env authURL caFile [] configMap kubeConfig)
        = Inl (Error (''failed to parse policies defined in the configmap '' @ configMap
                      @ '': '' @ message err)))
   \<and> (fst (NewKeystoneAuthorizer env authURL caFile policyFile configMap kubeConfig)
         = Inr (Some a) \<longrightarrow>
       (if policyFile \<noteq> [] then newFromFile env policyFile = Inr (authz_pl a)
        else \<exists>k' cm'. fst (createKubernetesClient env kubeConfig) = Inr k'
               \<and> ConfigMapsGet env k' ''kube-system'' configMap = Inr cm'
               \<and> jsonUnmarshal env (map_index (Data cm') ''policies'') = Inr (authz_pl a)))"
proof (intro conjI impI)
  assume "policyFile \<noteq> [] \<and> fst (createKeystoneClient env authURL caFile) = Inr c
      \<and> newFromFile env policyFile = Inl err"
  then show "fst (NewKeystoneAuthorizer env authURL caFile policyFile configMap kubeConfig)
      = Inl (Error (''failed to extract policy from policy file '' @ policyFile
                    @ '': '' @ message err))"
    by (cases "createKeystoneClient env authURL caFile")
      (simp add: NewKeystoneAuthorizer_def Let_def)
next
  assume "configMap \<noteq> [] \<and> fst (createKeystoneClient env authURL caFile) = Inr c
        \<and> fst (createKubernetesClient env kubeConfig) = Inr k
        \<and> ConfigMapsGet env k ''kube-system'' configMap = Inr cm
        \<and> jsonUnmarshal env (map_index (Data cm) ''policies'') = Inl err"
  then show "fst (NewKeystoneAuthorizer env authURL caFile [] configMap kubeConfig)
        = Inl (Error (''failed to parse policies defined in the configmap '' @ configMap
                      @ '': '' @ message err))"
    by (cases "createKeystoneClient env authURL caFile";
        cases "createKubernetesClient env kubeConfig")
      (simp add: NewKeystoneAuthorizer_def Let_def)
next
  assume "fst (NewKeystoneAuthorizer env authURL caFile policyFile configMap kubeConfig)
         = Inr (Some a)"
  then show "if policyFile \<noteq> [] then newFromFile env policyFile = Inr (authz_pl a)
        else \<exists>k' cm'. fst (createKubernetesClient env kubeConfig) = Inr k'
               \<and> ConfigMapsGet env k' ''kube-system'' configMap = Inr cm'
               \<and> jsonUnmarshal env (map_index (Data cm') ''policies'') = Inr (authz_pl a)"
    by (cases "createKeystoneClient env authURL caFile";
        cases "createKubernetesClient env kubeConfig")
      (auto simp: NewKeystoneAuthorizer_def authorizerWithPolicy_def Let_def
        split: sum.splits if_splits)
qed

text \<open>
  The amended C5 in the sample environment: a policy file that is missing, and a
  ConfigMap without a \<open>policies\<close> entry.
\<close>

theorem policy_load_is_all_or_nothing_witness:
  "fst (NewKeystoneAuthorizer sample_env ''https://keystone.example.org/v3/'' []
          ''/missing.json'' [] [])
     = Inl (Error ''failed to extract policy from policy file /missing.json: no such file or directory'')
   \<and> fst (NewKeystoneAuthorizer sample_env ''https://keystone.example.org/v3/'' [] []
          ''no-policies'' ''/etc/kube/config'')
     = Inl (Error ''failed to parse policies defined in the configmap no-policies: unexpected end of JSON input'')"
proof
  have "newFromFile sample_env ''/missing.json'' = Inl (Error ''no such file or directory'')"
    by (simp add: sample_env_def)
  with policy_load_is_all_or_nothing [of "''/missing.json''" sample_env
      "''https://keystone.example.org/v3/''" "[]" _ "Error ''no such file or directory''" "[]" "[]",
      THEN conjunct1]
  show "fst (NewKeystoneAuthorizer sample_env ''https://keystone.example.org/v3/'' []
          ''/missing.json'' [] [])
     = Inl (Error ''failed to extract policy from policy file /missing.json: no such file or directory'')"
    by (simp add: sample_keystone_client)
next
  have "ConfigMapsGet sample_env (Clientset (RestConfig ''https://kube.example.org''))
          ''kube-system'' ''no-policies''
        = Inr \<lparr>cm_Namespace = ''kube-system'', cm_Name = ''no-policies'', Data = Map.empty\<rparr>"
    "jsonUnmarshal sample_env [] = Inl (Error ''unexpected end of JSON input'')"
    by (simp_all add: sample_env_def)
  with policy_load_is_all_or_nothing [of _ sample_env
      "''https://keystone.example.org/v3/''" "[]" _ "Error ''unexpected end of JSON input''"
      "''no-policies''" "''/etc/kube/config''"
      "Clientset (RestConfig ''https://kube.example.org'')"
      "\<lparr>cm_Namespace = ''kube-system'', cm_Name = ''no-policies'', Data = Map.empty\<rparr>",
      THEN conjunct2, THEN conjunct1]
  show "fst (NewKeystoneAuthorizer sample_env ''https://keystone.example.org/v3/'' [] []
          ''no-policies'' ''/etc/kube/config'')
     = Inl (Error ''failed to parse policies defined in the configmap no-policies: unexpected end of JSON input'')"
    by (simp add: sample_keystone_client sample_kubernetes_client map_index_def)
qed

section \<open>The policy file branch and the cluster\<close>

text \<open>
  C6. With a non-empty \<open>policyFile\<close>, two calls that agree on \<open>authURL\<close>, \<open>caFile\<close>
  and \<open>policyFile\<close> return the same result and cause the same events whatever their
  \<open>configMap\<close> and \<open>kubeConfig\<close>, and no event of the run reaches Kubernetes: no client
  configuration is built, no Kubernetes client is constructed, no ConfigMap is read.
\<close>

theorem policyFile_branch_ignores_cluster:
  "policyFile \<noteq> [] \<Longrightarrow>
   NewKeystoneAuthorizer env authURL caFile policyFile configMap kubeConfig
     = NewKeystoneAuthorizer env authURL caFile policyFile configMap' kubeConfig'
   \<and> filter kubernetes_call
        (snd (NewKeystoneAuthorizer env authURL caFile policyFile configMap kubeConfig)) = []"
  using createKeystoneClient_no_kubernetes_call [of env authURL caFile]
  by (cases "createKeystoneClient env authURL caFile")
    (auto simp: NewKeystoneAuthorizer_def authorizerWithPolicy_def Let_def
      split: sum.splits)

text \<open>C6 in the sample environment, against a ConfigMap and a kubeconfig that differ.\<close>

theorem policyFile_branch_ignores_cluster_witness:
  "NewKeystoneAuthorizer sample_env ''https://keystone.example.org/v3/'' []
      ''/etc/policy.json'' ''keystone-policy'' ''/etc/kube/config''
    = NewKeystoneAuthorizer sample_env ''https://keystone.example.org/v3/'' []
      ''/etc/policy.json'' ''no-policies'' ''/nonexistent''
   \<and> filter kubernetes_call
        (snd (NewKeystoneAuthorizer sample_env ''https://keystone.example.org/v3/'' []
      ''/etc/policy.json'' ''keystone-policy'' ''/etc/kube/config'')) = []"
  by (rule policyFile_branch_ignores_cluster) simp

section \<open>The CA file\<close>

text \<open>
  C7. With an empty \<open>caFile\<close>, for every \<open>authURL\<close>, \<open>createKeystoneClient\<close> never
  calls \<open>certutil.NewPool\<close>, and the provider client it hands to \<open>ChooseVersion\<close> and
  to \<open>NewIdentityV3\<close> is the one \<open>openstack.NewClient\<close> returned, its transport
  untouched. With a non-empty \<open>caFile\<close>, when the run builds the pool and the build
  fails, \<open>createKeystoneClient\<close> returns exactly the error of \<open>NewPool\<close> and no
  client, having done nothing else. The pool is built from \<open>caFile\<close> and from no other
  file, exactly when \<open>caFile\<close> and \<open>authURL\<close> are non-empty: with an empty \<open>authURL\<close>
  the function has returned before.
\<close>

theorem caFile_is_optional:
  "(\<forall>f. CallNewPool f \<notin> set (snd (createKeystoneClient env authURL [])))
   \<and> (\<forall>p vs. CallChooseVersion p vs \<in> set (snd (createKeystoneClient env authURL []))
         \<longrightarrow> NewClient env authURL = Inr p)
   \<and> (\<forall>p. CallNewIdentityV3 p \<in> set (snd (createKeystoneClient env authURL []))
         \<longrightarrow> NewClient env authURL = Inr p)
   \<and> (caFile \<noteq> [] \<and> CallNewPool caFile \<in> set (snd (createKeystoneClient env authURL caFile))
        \<and> NewPool env caFile = Inl err
         \<longrightarrow> createKeystoneClient env authURL caFile = (Inl err, [CallNewPool caFile]))
   \<and> (\<forall>f. CallNewPool f \<in> set (snd (createKeystoneClient env authURL caFile))
         \<longleftrightarrow> f = caFile \<and> caFile \<noteq> [] \<and> authURL \<noteq> [])"
proof (intro conjI allI impI)
  fix f
  show "CallNewPool f \<notin> set (snd (createKeystoneClient env authURL []))"
    by (auto simp: createKeystoneClient_def Let_def split: sum.splits prod.splits
        dest: createIdentityV3Provider_events)
next
  fix p vs
  assume "CallChooseVersion p vs \<in> set (snd (createKeystoneClient env authURL []))"
  then show "NewClient env authURL = Inr p"
    by (auto simp: createKeystoneClient_def Let_def split: sum.splits prod.splits if_splits
        dest: createIdentityV3Provider_nil_transport_events)
next
  fix p
  assume "CallNewIdentityV3 p \<in> set (snd (createKeystoneClient env authURL []))"
  then show "NewClient env authURL = Inr p"
    by (auto simp: createKeystoneClient_def Let_def split: sum.splits prod.splits if_splits
        dest: createIdentityV3Provider_events createIdentityV3Provider_nil_transport)
next
  assume "caFile \<noteq> [] \<and> CallNewPool caFile \<in> set (snd (createKeystoneClient env authURL caFile))
        \<and> NewPool env caFile = Inl err"
  then show "createKeystoneClient env authURL caFile = (Inl err, [CallNewPool caFile])"
    by (cases "authURL = []") (simp_all add: createKeystoneClient_def)
next
  fix f
  show "CallNewPool f \<in> set (snd (createKeystoneClient env authURL caFile))
         \<longleftrightarrow> f = caFile \<and> caFile \<noteq> [] \<and> authURL \<noteq> []"
  proof
    assume "CallNewPool f \<in> set (snd (createKeystoneClient env authURL caFile))"
    then show "f = caFile \<and> caFile \<noteq> [] \<and> authURL \<noteq> []"
      by (auto simp: createKeystoneClient_def Let_def split: sum.splits prod.splits if_splits
          dest: createIdentityV3Provider_events)
  next
    assume "f = caFile \<and> caFile \<noteq> [] \<and> authURL \<noteq> []"
    then show "CallNewPool f \<in> set (snd (createKeystoneClient env authURL caFile))"
      by (auto simp: createKeystoneClient_def Let_def split: sum.splits prod.splits)
  qed
qed

text \<open>
  C7 in the sample environment: a CA file that does not exist, and the provider client
  that reaches \<open>NewIdentityV3\<close> when no CA file is named.
\<close>

theorem caFile_is_optional_witness:
  "createKeystoneClient sample_env ''https://keystone.example.org/v3/'' ''/missing.pem''
     = (Inl (Error ''no such file or directory''), [CallNewPool ''/missing.pem''])
   \<and> NewClient sample_env ''https://keystone.example.org/v3/''
       = Inr \<lparr>IdentityBase = ''https://keystone.example.org/'',
               IdentityEndpoint = ''https://keystone.example.org/v3/'',
               HTTPClient_Transport = None\<rparr>"
proof
  note th = caFile_is_optional [of sample_env "''https://keystone.example.org/v3/''"
        "''/missing.pem''" "Error ''no such file or directory''"]
  have built: "CallNewPool ''/missing.pem''
      \<in> set (snd (createKeystoneClient sample_env ''https://keystone.example.org/v3/''
                    ''/missing.pem''))"
    using th by simp
  have failed: "NewPool sample_env ''/missing.pem'' = Inl (Error ''no such file or directory'')"
    by (simp add: sample_env_def)
  from th built failed
  show "createKeystoneClient sample_env ''https://keystone.example.org/v3/'' ''/missing.pem''
     = (Inl (Error ''no such file or directory''), [CallNewPool ''/missing.pem''])"
    by simp
next
  show "NewClient sample_env ''https://keystone.example.org/v3/''
       = Inr \<lparr>IdentityBase = ''https://keystone.example.org/'',
               IdentityEndpoint = ''https://keystone.example.org/v3/'',
               HTTPClient_Transport = None\<rparr>"
    by (rule caFile_is_optional [of sample_env "''https://keystone.example.org/v3/''",
          THEN conjunct2, THEN conjunct2, THEN conjunct1, rule_format])
      (simp add: sample_keystone_client)
qed

section \<open>First match wins\<close>

lemma EvaluateFrom_first_match:
  "i < length rs \<Longrightarrow> rule_matches (rs ! i) ident act \<Longrightarrow>
   (\<forall>j<i. \<not> rule_matches (rs ! j) ident act) \<Longrightarrow>
   EvaluateFrom n d ident act rs
     = \<lparr>outcome = outcome_of (rule_effect (rs ! i)), matchedRuleIndex = Some (n + i)\<rparr>"
proof (induction rs arbitrary: n i)
  case Nil
  then show ?case by simp
next
  case (Cons r rs)
  show ?case
  proof (cases i)
    case 0
    with Cons.prems show ?thesis by simp
  next
    case (Suc k)
    with Cons.prems have nomatch: "\<not> rule_matches r ident act"
      by auto
    have k: "k < length rs" "rule_matches (rs ! k) ident act"
      using Cons.prems Suc by simp_all
    have before: "\<forall>j<k. \<not> rule_matches (rs ! j) ident act"
    proof (intro allI impI)
      fix j assume "j < k"
      then have "Suc j < i" using Suc by simp
      with Cons.prems(3) have "\<not> rule_matches ((r # rs) ! Suc j) ident act" by blast
      then show "\<not> rule_matches (rs ! j) ident act" by simp
    qed
    from Cons.IH [OF k before, of "Suc n"] nomatch Suc show ?thesis by simp
  qed
qed

text \<open>
  C8. For every identity, action and rule set, when rule \<open>i\<close> is the earliest rule whose
  conjunctive predicate matches the request, \<open>Evaluate\<close> returns the outcome configured
  in rule \<open>i\<close>, and the index \<open>i\<close>. For a \<open>get pods\<close> action the rule set
  \<open>[DenyAll, AllowGetPods]\<close> yields Deny and the reversed set yields Allow.
\<close>

theorem Evaluate_first_match_wins:
  "(i < length ruleSet \<and> rule_matches (ruleSet ! i) ident act
      \<and> (\<forall>j<i. \<not> rule_matches (ruleSet ! j) ident act) \<longrightarrow>
    Evaluate denyByDefault ident act ruleSet
      = \<lparr>outcome = outcome_of (rule_effect (ruleSet ! i)), matchedRuleIndex = Some i\<rparr>)
   \<and> outcome (Evaluate denyByDefault ident GetPods [DenyAll, AllowGetPods]) = Deny
   \<and> outcome (Evaluate denyByDefault ident GetPods [AllowGetPods, DenyAll]) = Allow"
proof (intro conjI impI)
  assume "i < length ruleSet \<and> rule_matches (ruleSet ! i) ident act
      \<and> (\<forall>j<i. \<not> rule_matches (ruleSet ! j) ident act)"
  then show "Evaluate denyByDefault ident act ruleSet
      = \<lparr>outcome = outcome_of (rule_effect (ruleSet ! i)), matchedRuleIndex = Some i\<rparr>"
    using EvaluateFrom_first_match [of i ruleSet ident act 0 denyByDefault]
    by (simp add: Evaluate_def)
next
  show "outcome (Evaluate denyByDefault ident GetPods [DenyAll, AllowGetPods]) = Deny"
    by (simp add: Evaluate_def rule_matches_def DenyAll_def AllowGetPods_def GetPods_def)
next
  show "outcome (Evaluate denyByDefault ident GetPods [AllowGetPods, DenyAll]) = Allow"
    by (simp add: Evaluate_def rule_matches_def DenyAll_def AllowGetPods_def GetPods_def)
qed

text \<open>
  C8 on three rules: the first names another user and does not match, so the second
  rule decides, ahead of the third, which matches too.
\<close>

theorem Evaluate_first_match_wins_witness:
  "Evaluate False alice GetPods [AllowGetPods\<lparr>rule_users := [''bob'']\<rparr>, DenyAll, AllowGetPods]
     = \<lparr>outcome = Deny, matchedRuleIndex = Some 1\<rparr>"
proof -
  have "(1::nat) < length [AllowGetPods\<lparr>rule_users := [''bob'']\<rparr>, DenyAll, AllowGetPods]
      \<and> rule_matches ([AllowGetPods\<lparr>rule_users := [''bob'']\<rparr>, DenyAll, AllowGetPods] ! 1)
           alice GetPods
      \<and> (\<forall>j<(1::nat). \<not> rule_matches
             ([AllowGetPods\<lparr>rule_users := [''bob'']\<rparr>, DenyAll, AllowGetPods] ! j)
             alice GetPods)"
    by (simp add: rule_matches_def DenyAll_def AllowGetPods_def GetPods_def alice_def)
  with Evaluate_first_match_wins
    [of 1 "[AllowGetPods\<lparr>rule_users := [''bob'']\<rparr>, DenyAll, AllowGetPods]" alice GetPods False,
      THEN conjunct1]
  show ?thesis by (simp add: DenyAll_def)
qed

section \<open>Identity API v3\<close>

text \<open>
  C10. Given that \<open>ChooseVersion\<close> returns one of its candidates, as gophercloud's does,
  \<open>createIdentityV3Provider\<close> returns a client exactly when \<open>NewClient\<close> and then the
  version negotiation over the single candidate v3 succeed; a successful negotiation
  yields the ID \<open>v3\<close>; and the function is equal to the function without the
  \<open>Unsupported identity API version\<close> branch, which is never taken.
\<close>

theorem only_identity_v3_accepted:
  assumes "chooses_among_candidates env"
  shows "fst (createIdentityV3Provider env options transport) =
      (case NewClient env (opts_IdentityEndpoint options) of
         Inl err \<Rightarrow> Inl err
       | Inr client0 \<Rightarrow>
          (case ChooseVersion env
                  (case transport of None \<Rightarrow> client0
                   | Some t \<Rightarrow> client0\<lparr>HTTPClient_Transport := Some t\<rparr>)
                  [\<lparr>ID = ''v3'', Priority = 30, Suffix = ''/v3/''\<rparr>] of
             Inl err \<Rightarrow> Inl (Error (''Unable to find identity API v3 version : '' @ message err))
           | Inr chosen \<Rightarrow>
               Inr (case transport of None \<Rightarrow> client0
                    | Some t \<Rightarrow> client0\<lparr>HTTPClient_Transport := Some t\<rparr>)))
    \<and> ((\<exists>c. fst (createIdentityV3Provider env options transport) = Inr c) \<longleftrightarrow>
        (\<exists>client0 chosen. NewClient env (opts_IdentityEndpoint options) = Inr client0
           \<and> ChooseVersion env
                  (case transport of None \<Rightarrow> client0
                   | Some t \<Rightarrow> client0\<lparr>HTTPClient_Transport := Some t\<rparr>)
                  [\<lparr>ID = ''v3'', Priority = 30, Suffix = ''/v3/''\<rparr>] = Inr chosen))
    \<and> (\<forall>c chosen ep. ChooseVersion env c [\<lparr>ID = ''v3'', Priority = 30, Suffix = ''/v3/''\<rparr>]
           = Inr (chosen, ep) \<longrightarrow> ID chosen = ''v3'')"
proof -
  have v3: "ID chosen = ''v3''"
    if "ChooseVersion env c [\<lparr>ID = ''v3'', Priority = 30, Suffix = ''/v3/''\<rparr>] = Inr (chosen, ep)"
    for c chosen ep
    using assms that unfolding chooses_among_candidates_def by fastforce
  have eq: "fst (createIdentityV3Provider env options transport) =
      (case NewClient env (opts_IdentityEndpoint options) of
         Inl err \<Rightarrow> Inl err
       | Inr client0 \<Rightarrow>
          (case ChooseVersion env
                  (case transport of None \<Rightarrow> client0
                   | Some t \<Rightarrow> client0\<lparr>HTTPClient_Transport := Some t\<rparr>)
                  [\<lparr>ID = ''v3'', Priority = 30, Suffix = ''/v3/''\<rparr>] of
             Inl err \<Rightarrow> Inl (Error (''Unable to find identity API v3 version : '' @ message err))
           | Inr chosen \<Rightarrow>
               Inr (case transport of None \<Rightarrow> client0
                    | Some t \<Rightarrow> client0\<lparr>HTTPClient_Transport := Some t\<rparr>)))"
    using v3 by (auto simp: createIdentityV3Provider_def Let_def split: sum.splits prod.splits)
  show ?thesis
  proof (intro conjI)
    show "fst (createIdentityV3Provider env options transport) =
      (case NewClient env (opts_IdentityEndpoint options) of
         Inl err \<Rightarrow> Inl err
       | Inr client0 \<Rightarrow>
          (case ChooseVersion env
                  (case transport of None \<Rightarrow> client0
                   | Some t \<Rightarrow> client0\<lparr>HTTPClient_Transport := Some t\<rparr>)
                  [\<lparr>ID = ''v3'', Priority = 30, Suffix = ''/v3/''\<rparr>] of
             Inl err \<Rightarrow> Inl (Error (''Unable to find identity API v3 version : '' @ message err))
           | Inr chosen \<Rightarrow>
               Inr (case transport of None \<Rightarrow> client0
                    | Some t \<Rightarrow> client0\<lparr>HTTPClient_Transport := Some t\<rparr>)))"
      by (rule eq)
  next
    show "(\<exists>c. fst (createIdentityV3Provider env options transport) = Inr c) \<longleftrightarrow>
        (\<exists>client0 chosen. NewClient env (opts_IdentityEndpoint options) = Inr client0
           \<and> ChooseVersion env
                  (case transport of None \<Rightarrow> client0
                   | Some t \<Rightarrow> client0\<lparr>HTTPClient_Transport := Some t\<rparr>)
                  [\<lparr>ID = ''v3'', Priority = 30, Suffix = ''/v3/''\<rparr>] = Inr chosen)"
      unfolding eq by (auto split: sum.splits)
  next
    show "\<forall>c chosen ep. ChooseVersion env c [\<lparr>ID = ''v3'', Priority = 30, Suffix = ''/v3/''\<rparr>]
           = Inr (chosen, ep) \<longrightarrow> ID chosen = ''v3''"
      using v3 by blast
  qed
qed

text \<open>
  C10 in the sample environment, whose \<open>ChooseVersion\<close> returns its first candidate.
\<close>

theorem only_identity_v3_accepted_witness:
  "chooses_among_candidates sample_env
   \<and> fst (createIdentityV3Provider sample_env
            \<lparr>opts_IdentityEndpoint = ''https://keystone.example.org/v3/''\<rparr> None)
       = Inr \<lparr>IdentityBase = ''https://keystone.example.org/'',
               IdentityEndpoint = ''https://keystone.example.org/v3/'',
               HTTPClient_Transport = None\<rparr>"
  using only_identity_v3_accepted [OF sample_env_chooses_among_candidates,
      of "\<lparr>opts_IdentityEndpoint = ''https://keystone.example.org/v3/''\<rparr>" None]
    sample_env_chooses_among_candidates
  by (simp add: sample_env_def)

end
